theory Spec2Isabelle
  imports Main "HOL-Library.Word"
begin

unbundle bit_operations_syntax

section \<open>Data model (model.ts)\<close>

text \<open>
  Values produced by \<^verbatim>\<open>JSON.parse\<close>. A JSON number is an IEEE double: \<open>Finite m e\<close>
  stands for \<open>m * 2 ^ e\<close>; no function modelled here looks inside one. An object is the
  list of its own properties.
\<close>

datatype js_double = Finite int int | Infinity bool | NaN

datatype json =
    JNull
  | JBool bool
  | JNum js_double
  | JStr string
  | JArr "json list"
  | JObj "(string \<times> json) list"

text \<open>
  \<^verbatim>\<open>AtombergFanCommandType\<close> and \<^verbatim>\<open>AtombergFanCommandData\<close>: a command carries only the
  fields that are to change, so each one is optional.
\<close>

record AtombergFanCommandType =
  power :: "bool option"
  speed :: "int option"
  speedDelta :: "int option"
  sleep :: "bool option"
  timer :: "int option"
  led :: "bool option"
  brightness :: "int option"
  brightnessDelta :: "int option"
  light_mode :: "string option"

record AtombergFanCommandData =
  device_id :: string
  command :: AtombergFanCommandType

text \<open>\<^verbatim>\<open>AtombergFanDeviceMetadata\<close> and \<^verbatim>\<open>AtombergFanDevice\<close>.\<close>

record AtombergFanDeviceMetadata =
  ssid :: string

record AtombergFanDevice =
  device_id :: string
  color :: string
  series :: string
  model :: string
  room :: string
  name :: string
  metadata :: AtombergFanDeviceMetadata

text \<open>
  \<^verbatim>\<open>AtombergFanDeviceState\<close>. The interface declares \<^verbatim>\<open>device_id: string\<close>, but the
  broadcast decoder stores whatever \<^verbatim>\<open>jsonMessage['device_id']\<close> evaluates to under an
  unchecked cast, so the field holds a JSON value, or \<open>None\<close> for \<^verbatim>\<open>undefined\<close>.
  The record is declared last of the three that have a \<open>device_id\<close>, so the unqualified
  field names are its own.
  The decoder leaves \<^verbatim>\<open>ts_epoch_seconds\<close> out of the object it builds (\<open>None\<close>).
  Numbers that the code computes are integers here; the three divisions of the decoder
  are exact (lemmas \<open>timer_hours_exact\<close>, \<open>brightness_exact\<close> and
  \<open>timer_elapsed_exact\<close>).
\<close>

record AtombergFanDeviceState =
  device_id :: "json option"
  is_online :: bool
  power :: bool
  led :: bool
  sleep_mode :: bool
  last_recorded_speed :: int
  timer_hours :: int
  timer_time_elapsed_mins :: int
  ts_epoch_seconds :: "int option"
  last_recorded_brightness :: int
  last_recorded_color :: string

section \<open>Broadcast decoder (broadcastListener.ts, parseMessage)\<close>

text \<open>
  ECMAScript's ToInt32 on a Number: NaN and the infinities give 0; a finite number is
  truncated towards zero and reduced modulo \<open>2 ^ 32\<close>. The 32-bit word is that residue;
  reading it as a signed integer is \<open>sint\<close>.
\<close>

definition truncate_double :: "int \<Rightarrow> int \<Rightarrow> int" where
  "truncate_double m e =
     (if 0 \<le> e then m * 2 ^ nat e else sgn m * (\<bar>m\<bar> div 2 ^ nat (- e)))"

fun ToInt32 :: "js_double \<Rightarrow> 32 word" where
  "ToInt32 (Finite m e) = word_of_int (truncate_double m e)"
| "ToInt32 (Infinity _) = 0"
| "ToInt32 NaN = 0"

text \<open>
  JavaScript's \<^verbatim>\<open>a & b\<close> converts both operands with ToInt32, takes the bitwise AND of
  the two 32-bit patterns and returns it as a \<^emph>\<open>signed\<close> 32-bit integer. The operands
  are given here after ToInt32, as 32-bit words; \<open>sint\<close> reads the result.
\<close>

definition js_bitand :: "32 word \<Rightarrow> 32 word \<Rightarrow> int" where
  "js_bitand a b = sint (a AND b)"

text \<open>
  The second half of \<^verbatim>\<open>parseMessage\<close>: the fields of the returned object, from the
  value of \<^verbatim>\<open>jsonMessage['device_id']\<close> and the state code after ToInt32. Every
  \<^verbatim>\<open>&\<close> of the source has the mask on the left and the state code on the right.
\<close>

definition decodeStateCode :: "json option \<Rightarrow> 32 word \<Rightarrow> AtombergFanDeviceState" where
  "decodeStateCode dev stateCode =
     (let power = (if js_bitand 0x10 stateCode > 0 then True else False);
          led = (if js_bitand 0x20 stateCode > 0 then True else False);
          sleep = (if js_bitand 0x80 stateCode > 0 then True else False);
          speed = js_bitand 0x07 stateCode;
          fanTimer = js_bitand 0x0F0000 stateCode div 65536;
          fanTimerElapsedMins = js_bitand 0xFF000000 stateCode * 4 div 16777216;
          brightness = js_bitand 0x7F00 stateCode div 256;
          cool = (if js_bitand 0x08 stateCode > 0 then True else False);
          warm = (if js_bitand 0x8000 stateCode > 0 then True else False)
      in \<lparr> device_id = dev,
           is_online = True,
           power = power,
           led = led,
           sleep_mode = sleep,
           last_recorded_speed = speed,
           timer_hours = fanTimer,
           timer_time_elapsed_mins = fanTimerElapsedMins,
           ts_epoch_seconds = None,
           last_recorded_brightness = brightness,
           last_recorded_color = (if cool then (if warm then ''Daylight'' else ''Cool'') else ''Warm'') \<rparr>)"


subsection \<open>The coercions of the runtime and the outer layers of the decoder\<close>

text \<open>
  Functions of Node.js and of the language that \<^verbatim>\<open>parseMessage\<close> calls; they are not code
  of this repository and are parameters of the model. A JavaScript string is
  represented by its UTF-8 encoding. \<open>JSON_parse\<close> gives \<open>None\<close> where
  \<^verbatim>\<open>JSON.parse\<close> throws a SyntaxError; the other three never throw.
\<close>

record node_runtime =
  Buffer_toString :: "8 word list \<Rightarrow> string"
  Buffer_from_hex :: "string \<Rightarrow> 8 word list"
  JSON_parse :: "string \<Rightarrow> json option"
  ToNumber :: "string \<Rightarrow> js_double"

datatype js_error = SyntaxError | TypeError

text \<open>
  \<^verbatim>\<open>v[key]\<close> for a key that is neither \<^verbatim>\<open>length\<close> nor an index (the decoder reads
  \<^verbatim>\<open>state_string\<close> and \<^verbatim>\<open>device_id\<close>): reading a property of \<^verbatim>\<open>null\<close> throws a
  TypeError, an object gives its own property or \<^verbatim>\<open>undefined\<close> (\<open>None\<close>), and every
  other JSON value gives \<^verbatim>\<open>undefined\<close>.
\<close>

fun get_property :: "json \<Rightarrow> string \<Rightarrow> js_error + json option" where
  "get_property JNull key = Inl TypeError"
| "get_property (JObj props) key = Inr (map_of props key)"
| "get_property _ key = Inr None"

text \<open>
  \<^verbatim>\<open>v.split(',')[0]\<close>: on a string, the text before its first comma (the whole string
  when it has none). On \<^verbatim>\<open>undefined\<close> and \<^verbatim>\<open>null\<close> the property read throws, and no
  other JSON value has a callable \<^verbatim>\<open>split\<close>: a TypeError in both cases.
\<close>

fun split_comma_first :: "json option \<Rightarrow> js_error + string" where
  "split_comma_first (Some (JStr s)) = Inr (takeWhile (\<lambda>ch. ch \<noteq> CHR '','') s)"
| "split_comma_first _ = Inl TypeError"

text \<open>The body of the \<^verbatim>\<open>try\<close> block of \<^verbatim>\<open>parseMessage\<close>; \<open>Inl\<close> is a thrown error.\<close>

definition parseMessage_try :: "node_runtime \<Rightarrow> 8 word list \<Rightarrow> js_error + AtombergFanDeviceState" where
  "parseMessage_try rt message =
     (let hexString = Buffer_toString rt message;
          stringMessage = Buffer_toString rt (Buffer_from_hex rt hexString)
      in case JSON_parse rt stringMessage of
           None \<Rightarrow> Inl SyntaxError
         | Some jsonMessage \<Rightarrow>
             (case get_property jsonMessage ''state_string'' of
                Inl err \<Rightarrow> Inl err
              | Inr state_string \<Rightarrow>
                  (case split_comma_first state_string of
                     Inl err \<Rightarrow> Inl err
                   | Inr stateCode \<Rightarrow>
                       (case get_property jsonMessage ''device_id'' of
                          Inl err \<Rightarrow> Inl err
                        | Inr dev \<Rightarrow>
                            Inr (decodeStateCode dev (ToInt32 (ToNumber rt stateCode)))))))"

text \<open>
  \<^verbatim>\<open>parseMessage\<close>: the \<^verbatim>\<open>catch\<close> clause logs the error and returns \<^verbatim>\<open>null\<close>
  (\<open>Inr None\<close>). \<open>Inl\<close> would be an error thrown to the caller.
\<close>

definition parseMessage :: "node_runtime \<Rightarrow> 8 word list \<Rightarrow> js_error + AtombergFanDeviceState option" where
  "parseMessage rt message =
     (case parseMessage_try rt message of
        Inl err \<Rightarrow> Inr None
      | Inr res \<Rightarrow> Inr (Some res))"

text \<open>
  \<^verbatim>\<open>onMessage\<close>: the list of \<^verbatim>\<open>stateChange\<close> events it emits for one datagram of the
  given size. Its own \<^verbatim>\<open>catch\<close> clause logs and emits nothing.
\<close>

definition onMessage :: "node_runtime \<Rightarrow> 8 word list \<Rightarrow> nat \<Rightarrow> AtombergFanDeviceState list" where
  "onMessage rt message size_of_datagram =
     (if size_of_datagram > 100 then
        (case parseMessage rt message of
           Inl err \<Rightarrow> []
         | Inr None \<Rightarrow> []
         | Inr (Some res) \<Rightarrow> [res])
      else [])"

section \<open>Settings (settings.ts)\<close>

definition LOGIN_RETRY_DELAY :: nat where
  "LOGIN_RETRY_DELAY = 360 * 1000"

definition LOGIN_TOKEN_REFRESH_INTERVAL :: nat where
  "LOGIN_TOKEN_REFRESH_INTERVAL = 60 * 60 * 23 * 1000"

definition ATOMBERG_API_HOST :: string where
  "ATOMBERG_API_HOST = ''https://api.developer.atomberg-iot.com''"

definition GET_ACCESS_TOKEN :: string where
  "GET_ACCESS_TOKEN = ''/v1/get_access_token''"

definition GET_DEVICES :: string where
  "GET_DEVICES = ''/v1/get_list_of_devices''"

definition SEND_COMMAND :: string where
  "SEND_COMMAND = ''/v1/send_command''"

definition GET_DEVICE_STATE :: string where
  "GET_DEVICE_STATE = ''/v1/get_device_state''"

section \<open>Session manager and API client (atombergApi.ts)\<close>

subsection \<open>Timers, requests and promises\<close>

text \<open>
  The state of an \<^verbatim>\<open>AtombergApi\<close> object (\<open>accessToken\<close>, \<open>loginRefreshInterval\<close> for
  \<^verbatim>\<open>_loginRefreshInterval\<close>, \<open>loginRetryTimeouts\<close> for \<^verbatim>\<open>_loginRetryTimeouts\<close>) together
  with the part of the runtime it acts on: the timers that are scheduled and neither
  fired (for a timeout) nor cleared, each with its delay in milliseconds, the counter
  that names the next timer, the requests handed to \<^verbatim>\<open>axios\<close> so far, and the number of
  login requests that have not settled yet. Every timer of this class calls
  \<^verbatim>\<open>login\<close>, so a timer table does not store callbacks. Calls of the logger change
  nothing here and are left out.
\<close>

type_synonym timer_handle = nat

datatype http_request = Request (request_method: string) (request_url: string) (bearer: string)

record api_world =
  accessToken :: string
  loginRefreshInterval :: "timer_handle option"
  loginRetryTimeouts :: "timer_handle list"
  timeouts :: "(timer_handle \<times> nat) list"
  intervals :: "(timer_handle \<times> nat) list"
  next_handle :: timer_handle
  requests :: "http_request list"
  logins_in_flight :: nat

text \<open>The constructor: an empty token, no timers.\<close>

definition new_AtombergApi :: api_world where
  "new_AtombergApi =
     \<lparr> accessToken = '''', loginRefreshInterval = None, loginRetryTimeouts = [],
       timeouts = [], intervals = [], next_handle = 0, requests = [], logins_in_flight = 0 \<rparr>"

definition setTimeout :: "nat \<Rightarrow> api_world \<Rightarrow> timer_handle \<times> api_world" where
  "setTimeout delay w =
     (next_handle w,
      w\<lparr> timeouts := timeouts w @ [(next_handle w, delay)], next_handle := Suc (next_handle w) \<rparr>)"

definition setInterval :: "nat \<Rightarrow> api_world \<Rightarrow> timer_handle \<times> api_world" where
  "setInterval delay w =
     (next_handle w,
      w\<lparr> intervals := intervals w @ [(next_handle w, delay)], next_handle := Suc (next_handle w) \<rparr>)"

text \<open>
  In Node.js \<^verbatim>\<open>clearTimeout\<close> and \<^verbatim>\<open>clearInterval\<close> cancel a timer of either kind;
  cancelling a timer that has fired or was cancelled before does nothing, and so does
  \<^verbatim>\<open>clearInterval(undefined)\<close>.
\<close>

definition clearTimeout :: "timer_handle \<Rightarrow> api_world \<Rightarrow> api_world" where
  "clearTimeout h w =
     w\<lparr> timeouts := filter (\<lambda>t. fst t \<noteq> h) (timeouts w),
        intervals := filter (\<lambda>t. fst t \<noteq> h) (intervals w) \<rparr>"

definition clearInterval :: "timer_handle option \<Rightarrow> api_world \<Rightarrow> api_world" where
  "clearInterval h w = (case h of None \<Rightarrow> w | Some t \<Rightarrow> clearTimeout t w)"

text \<open>
  A settled promise. \<open>Rejected None\<close> is \<^verbatim>\<open>Promise.reject()\<close>, a rejection without a
  reason.
\<close>

datatype 'a promise = Fulfilled 'a | Rejected "string option"

text \<open>
  What \<^verbatim>\<open>axios.request\<close> settles with. The vendor's responses are an envelope of a status
  and a message, typed as the API gives them. \<^verbatim>\<open>axios\<close> rejects on a status outside
  2xx (\<open>ErrorResponse\<close>, with the HTTP status), when no response arrives
  (\<open>ErrorRequest\<close>) and when the request could not be set up (\<open>ErrorSetup\<close>).
\<close>

record 'm envelope =
  status :: string
  message :: 'm

datatype axios_error = ErrorResponse nat | ErrorRequest | ErrorSetup

datatype 'm http_outcome = HttpResponse "'m envelope" | HttpFailure axios_error

record token_message =
  access_token :: string

record devices_message =
  devices_list :: "AtombergFanDevice list option"

record state_message =
  device_state :: "AtombergFanDeviceState list option"

subsection \<open>login and retryLogin\<close>

text \<open>\<^verbatim>\<open>retryLogin\<close>: after its log lines, one timeout that calls \<^verbatim>\<open>login\<close>, pushed on the list.\<close>

definition retryLogin :: "api_world \<Rightarrow> api_world" where
  "retryLogin w =
     (let (h, w1) = setTimeout LOGIN_RETRY_DELAY w
      in w1\<lparr> loginRetryTimeouts := loginRetryTimeouts w1 @ [h] \<rparr>)"

text \<open>
  \<^verbatim>\<open>login\<close> up to the point where its request is under way: the loop that clears every
  handle of \<^verbatim>\<open>_loginRetryTimeouts\<close> (the array itself is never emptied), the
  \<^verbatim>\<open>clearInterval\<close>, and the request with the refresh token of the configuration.
\<close>

definition login_request :: "string \<Rightarrow> http_request" where
  "login_request refreshToken = Request ''get'' (ATOMBERG_API_HOST @ GET_ACCESS_TOKEN) refreshToken"

definition login_begin :: "string \<Rightarrow> api_world \<Rightarrow> api_world" where
  "login_begin refreshToken w =
     (let w1 = fold clearTimeout (loginRetryTimeouts w) w;
          w2 = clearInterval (loginRefreshInterval w1) w1
      in w2\<lparr> requests := requests w2 @ [login_request refreshToken],
             logins_in_flight := Suc (logins_in_flight w2) \<rparr>)"

text \<open>
  The rest of \<^verbatim>\<open>login\<close>, run when the request settles: the \<^verbatim>\<open>then\<close> handler on a
  response, the \<^verbatim>\<open>catch\<close> handler on a failure. Neither handler returns a value, so
  the promise of \<^verbatim>\<open>login\<close> is fulfilled with \<^verbatim>\<open>undefined\<close> (\<open>None\<close>).
\<close>

definition login_settle :: "token_message http_outcome \<Rightarrow> api_world \<Rightarrow> json option promise \<times> api_world" where
  "login_settle outcome w =
     (case outcome of
        HttpResponse response_data \<Rightarrow>
          (if status response_data \<noteq> ''Success'' then
             (Fulfilled None, retryLogin (w\<lparr> accessToken := '''' \<rparr>))
           else
             (let w1 = w\<lparr> accessToken := access_token (message response_data) \<rparr>;
                  (h, w2) = setInterval LOGIN_TOKEN_REFRESH_INTERVAL w1
              in (Fulfilled None, w2\<lparr> loginRefreshInterval := Some h \<rparr>)))
      | HttpFailure error \<Rightarrow> (Fulfilled None, retryLogin w))"

text \<open>One call of \<^verbatim>\<open>login\<close> that nothing interleaves with.\<close>

definition login :: "string \<Rightarrow> token_message http_outcome \<Rightarrow> api_world \<Rightarrow> json option promise \<times> api_world" where
  "login refreshToken outcome w =
     (let w1 = login_begin refreshToken w
      in login_settle outcome (w1\<lparr> logins_in_flight := logins_in_flight w1 - 1 \<rparr>))"

subsection \<open>The three operations\<close>

text \<open>
  \<^verbatim>\<open>handleNetworkRequestError\<close>: only a 401 response changes the state, by one more
  timeout that calls \<^verbatim>\<open>login\<close>; every other branch logs.
\<close>

definition handleNetworkRequestError :: "axios_error \<Rightarrow> api_world \<Rightarrow> api_world" where
  "handleNetworkRequestError error w =
     (case error of
        ErrorResponse code \<Rightarrow>
          (if code = 401 then
             (let (h, w1) = setTimeout LOGIN_RETRY_DELAY w
              in w1\<lparr> loginRetryTimeouts := loginRetryTimeouts w1 @ [h] \<rparr>)
           else w)
      | ErrorRequest \<Rightarrow> w
      | ErrorSetup \<Rightarrow> w)"

definition no_auth_token :: string where
  "no_auth_token = ''No auth token available (login probably failed). '' @
                   ''Check your credentials and restart HomeBridge.''"

text \<open>
  Each operation returns the promise it settles with and the state after it. A response
  whose status is not \<^verbatim>\<open>Success\<close> is rejected inside the \<^verbatim>\<open>then\<close> handler with the
  message, which the \<^verbatim>\<open>catch\<close> handler of the same chain receives: the message has
  neither a \<^verbatim>\<open>response\<close> nor a \<^verbatim>\<open>request\<close>, so \<^verbatim>\<open>handleNetworkRequestError\<close> logs
  it as it does a set-up error, and the operation rejects without a reason.
\<close>

definition getAllDevices ::
  "devices_message http_outcome \<Rightarrow> api_world \<Rightarrow> AtombergFanDevice list option promise \<times> api_world" where
  "getAllDevices outcome w =
     (if accessToken w = '''' then (Rejected (Some no_auth_token), w)
      else
        (let w1 = w\<lparr> requests := requests w @
                     [Request ''get'' (ATOMBERG_API_HOST @ GET_DEVICES) (accessToken w)] \<rparr>
         in case outcome of
              HttpResponse response_data \<Rightarrow>
                (if status response_data \<noteq> ''Success'' then
                   (Rejected None, handleNetworkRequestError ErrorSetup w1)
                 else (Fulfilled (devices_list (message response_data)), w1))
            | HttpFailure error \<Rightarrow> (Rejected None, handleNetworkRequestError error w1)))"

definition getDeviceState ::
  "state_message http_outcome \<Rightarrow> api_world \<Rightarrow> AtombergFanDeviceState list option promise \<times> api_world" where
  "getDeviceState outcome w =
     (if accessToken w = '''' then (Rejected (Some no_auth_token), w)
      else
        (let w1 = w\<lparr> requests := requests w @
                     [Request ''get'' (ATOMBERG_API_HOST @ GET_DEVICE_STATE) (accessToken w)] \<rparr>
         in case outcome of
              HttpResponse response_data \<Rightarrow>
                (if status response_data \<noteq> ''Success'' then
                   (Rejected None, handleNetworkRequestError ErrorSetup w1)
                 else (Fulfilled (device_state (message response_data)), w1))
            | HttpFailure error \<Rightarrow> (Rejected None, handleNetworkRequestError error w1)))"

definition sendCommand ::
  "AtombergFanCommandData \<Rightarrow> 'm http_outcome \<Rightarrow> api_world \<Rightarrow> bool promise \<times> api_world" where
  "sendCommand data outcome w =
     (if accessToken w = '''' then (Rejected (Some no_auth_token), w)
      else
        (let w1 = w\<lparr> requests := requests w @
                     [Request ''post'' (ATOMBERG_API_HOST @ SEND_COMMAND) (accessToken w)] \<rparr>
         in case outcome of
              HttpResponse response_data \<Rightarrow>
                (if status response_data \<noteq> ''Success'' then
                   (Rejected None, handleNetworkRequestError ErrorSetup w1)
                 else (Fulfilled True, w1))
            | HttpFailure error \<Rightarrow> (Rejected None, handleNetworkRequestError error w1)))"

subsection \<open>Interleaved calls\<close>

text \<open>
  What can happen to an \<^verbatim>\<open>AtombergApi\<close> object on the event loop, one event at a time: a
  caller invokes \<^verbatim>\<open>login\<close>; a pending timeout fires, which removes it from the timer
  table and calls \<^verbatim>\<open>login\<close>; an active interval fires and calls \<^verbatim>\<open>login\<close>; a login
  request that is under way settles; an operation receives a 401 response. An event
  that is not possible in a state (a timer that is not scheduled, a settlement with no
  request under way) leaves the state as it is.
\<close>

datatype event =
    CallLogin
  | TimeoutFires timer_handle
  | IntervalFires timer_handle
  | LoginSettles "token_message http_outcome"
  | Unauthorized

definition step :: "string \<Rightarrow> event \<Rightarrow> api_world \<Rightarrow> api_world" where
  "step refreshToken ev w =
     (case ev of
        CallLogin \<Rightarrow> login_begin refreshToken w
      | TimeoutFires h \<Rightarrow>
          (if h \<in> fst ` set (timeouts w) then
             login_begin refreshToken (w\<lparr> timeouts := filter (\<lambda>t. fst t \<noteq> h) (timeouts w) \<rparr>)
           else w)
      | IntervalFires h \<Rightarrow>
          (if h \<in> fst ` set (intervals w) then login_begin refreshToken w else w)
      | LoginSettles outcome \<Rightarrow>
          (if 0 < logins_in_flight w then
             snd (login_settle outcome (w\<lparr> logins_in_flight := logins_in_flight w - 1 \<rparr>))
           else w)
      | Unauthorized \<Rightarrow> handleNetworkRequestError (ErrorResponse 401) w)"

definition run :: "string \<Rightarrow> event list \<Rightarrow> api_world \<Rightarrow> api_world" where
  "run refreshToken evs w = fold (step refreshToken) evs w"

subsection \<open>Invariants of the timers\<close>

text \<open>Every pending timeout is on the list \<^verbatim>\<open>_loginRetryTimeouts\<close>.\<close>

definition retries_listed :: "api_world \<Rightarrow> bool" where
  "retries_listed w = (fst ` set (timeouts w) \<subseteq> set (loginRetryTimeouts w))"

text \<open>
  A run in which no call of \<^verbatim>\<open>login\<close> starts while the request of another is under
  way.
\<close>

definition starts_login :: "event \<Rightarrow> bool" where
  "starts_login ev =
     (case ev of
        CallLogin \<Rightarrow> True
      | TimeoutFires h \<Rightarrow> True
      | IntervalFires h \<Rightarrow> True
      | LoginSettles outcome \<Rightarrow> False
      | Unauthorized \<Rightarrow> False)"

fun non_overlapping :: "string \<Rightarrow> event list \<Rightarrow> api_world \<Rightarrow> bool" where
  "non_overlapping token [] w = True"
| "non_overlapping token (ev # evs) w =
     ((if starts_login ev then logins_in_flight w = 0 else True)
      \<and> non_overlapping token evs (step token ev w))"

text \<open>
  At most one login request is under way, at most one interval is active, the active
  interval is the one whose handle the object holds, and none is active while a login
  request is under way.
\<close>

definition one_chain :: "api_world \<Rightarrow> bool" where
  "one_chain w =
     (logins_in_flight w \<le> 1
      \<and> length (intervals w) \<le> 1
      \<and> fst ` set (intervals w) \<subseteq> set_option (loginRefreshInterval w)
      \<and> (if logins_in_flight w = 1 then intervals w = [] else True))"

text \<open>Responses of the access-token endpoint, for stating what \<^verbatim>\<open>login\<close> does with them.\<close>

definition token_granted :: "string \<Rightarrow> token_message http_outcome" where
  "token_granted token =
     HttpResponse \<lparr> status = ''Success'', message = \<lparr> access_token = token \<rparr> \<rparr>"

definition token_refused :: "token_message http_outcome" where
  "token_refused =
     HttpResponse \<lparr> status = ''Failure'', message = \<lparr> access_token = '''' \<rparr> \<rparr>"

section \<open>Accessory handler (platformAccessory.ts)\<close>

text \<open>
  The part of Homebridge's object model that the handler and the platform use: the two
  characteristics
  of the \<^verbatim>\<open>Fanv2\<close> service that \<^verbatim>\<open>refreshDeviceStatus\<close> writes, and of a
  \<^verbatim>\<open>PlatformAccessory\<close> its UUID, its display name, \<^verbatim>\<open>context.device\<close>,
  \<^verbatim>\<open>context.deviceDisplayName\<close> and the \<^verbatim>\<open>Fanv2\<close> service if it has one. The context
  is untyped in Homebridge, so \<^verbatim>\<open>context.device\<close> may be missing (\<open>None\<close>).
\<close>

record Fanv2 =
  Active :: int
  RotationSpeed :: int

definition ACTIVE :: int where "ACTIVE = 1"

definition INACTIVE :: int where "INACTIVE = 0"

record PlatformAccessory =
  UUID :: string
  displayName :: string
  context_device :: "AtombergFanDevice option"
  context_deviceDisplayName :: "string option"
  fan_service :: "Fanv2 option"

text \<open>
  An \<^verbatim>\<open>AtombergFanPlatformAccessory\<close>: its accessory, its \<^verbatim>\<open>fanState\<close> (\<open>None\<close> when the
  platform found no state for the device and passed \<^verbatim>\<open>undefined\<close>) and its service,
  whose characteristic values are what the consumer sees. In the program the accessory
  and its service are objects shared with the platform's list; here the handler holds
  their current values, and no property below depends on the sharing.
\<close>

record AtombergFanPlatformAccessory =
  accessory :: PlatformAccessory
  fanState :: "AtombergFanDeviceState option"
  service :: Fanv2

text \<open>
  \<^verbatim>\<open>refreshDeviceStatus\<close>. Reading \<^verbatim>\<open>is_online\<close> of \<^verbatim>\<open>undefined\<close> throws inside the
  \<^verbatim>\<open>try\<close> block, whose \<^verbatim>\<open>catch\<close> clause only logs.
\<close>

definition refreshDeviceStatus ::
  "AtombergFanPlatformAccessory \<Rightarrow> AtombergFanDeviceState option \<Rightarrow> AtombergFanPlatformAccessory" where
  "refreshDeviceStatus this deviceState =
     (case deviceState of
        None \<Rightarrow> this
      | Some st \<Rightarrow>
          (if \<not> is_online st then this
           else
             (let active = (if power st then ACTIVE else INACTIVE);
                  this1 = this\<lparr> service := (service this)\<lparr> Active := active \<rparr> \<rparr>;
                  fanSpeed = last_recorded_speed st;
                  fanSpeed = (if fanSpeed > 5 then 5 else fanSpeed)
              in this1\<lparr> service := (service this1)\<lparr> RotationSpeed := fanSpeed * 20 \<rparr> \<rparr>)))"

text \<open>
  The constructor: it takes the \<^verbatim>\<open>Fanv2\<close> service of the accessory or adds one (a new
  service has the default values 0 of both characteristics), and ends with
  \<^verbatim>\<open>refreshDeviceStatus(this.fanState)\<close>. Its writes to the accessory information
  service read \<^verbatim>\<open>accessory.context.device\<close>, which both callers set just before, and
  are not modelled.
\<close>

definition new_AtombergFanPlatformAccessory ::
  "PlatformAccessory \<Rightarrow> AtombergFanDeviceState option \<Rightarrow> AtombergFanPlatformAccessory" where
  "new_AtombergFanPlatformAccessory acc deviceState =
     (let fan = (case fan_service acc of
                   Some existing \<Rightarrow> existing
                 | None \<Rightarrow> \<lparr> Active = 0, RotationSpeed = 0 \<rparr>)
      in refreshDeviceStatus
           \<lparr> accessory = acc\<lparr> fan_service := Some fan \<rparr>, fanState = deviceState, service = fan \<rparr>
           deviceState)"

section \<open>Platform (platform.ts)\<close>

record AtombergFanPlatformConfig =
  apiKey :: string
  refreshToken :: string

text \<open>
  The platform: the accessories restored from the cache (\<open>accessories\<close>) and the map
  from device identifier to handler (\<open>accessoryInstances\<close>).
\<close>

record AtombergFanPlatform =
  accessories :: "PlatformAccessory list"
  accessoryInstances :: "string \<rightharpoonup> AtombergFanPlatformAccessory"

text \<open>
  The calls to the Homebridge API that register, update and unregister accessories, in
  the order in which the platform makes them. The three methods hand their argument to
  Homebridge and return; what Homebridge does with it afterwards is outside this model.
\<close>

datatype homebridge_call =
    UpdatePlatformAccessories PlatformAccessory
  | RegisterPlatformAccessories PlatformAccessory
  | UnregisterPlatformAccessories PlatformAccessory

text \<open>
  An assignment through the reference that \<^verbatim>\<open>Array.prototype.find\<close> returned changes
  the first element that satisfies the predicate.
\<close>

fun update_first :: "('a \<Rightarrow> bool) \<Rightarrow> ('a \<Rightarrow> 'a) \<Rightarrow> 'a list \<Rightarrow> 'a list" where
  "update_first P f [] = []"
| "update_first P f (x # xs) = (if P x then f x # xs else x # update_first P f xs)"

text \<open>
  \<^verbatim>\<open>new this.api.platformAccessory(displayName, uuid)\<close>, the constructor of Homebridge:
  it asserts that the display name is not empty and throws an AssertionError otherwise
  (\<open>None\<close>). It asserts a valid UUID as well; the UUID passed here comes from
  \<^verbatim>\<open>uuid.generate\<close>, which returns a valid one. A new accessory has an empty context and
  no \<^verbatim>\<open>Fanv2\<close> service.
\<close>

definition new_platformAccessory :: "string \<Rightarrow> string \<Rightarrow> PlatformAccessory option" where
  "new_platformAccessory display uuid =
     (if display = [] then None
      else Some \<lparr> UUID = uuid, displayName = display, context_device = None,
                   context_deviceDisplayName = None, fan_service = None \<rparr>)"

text \<open>
  One round of the loop over the discovered devices. \<open>generate\<close> is
  \<^verbatim>\<open>api.hap.uuid.generate\<close>, a function of Homebridge. A new accessory is not added to
  \<^verbatim>\<open>this.accessories\<close>. The result is \<open>None\<close> when the round throws: the only throw is
  the one of the accessory constructor, before the round has changed anything.
\<close>

definition setup_device ::
  "(string \<Rightarrow> string) \<Rightarrow> AtombergFanDeviceState list \<Rightarrow> AtombergFanDevice \<Rightarrow>
   AtombergFanPlatform \<times> homebridge_call list \<Rightarrow> (AtombergFanPlatform \<times> homebridge_call list) option" where
  "setup_device generate deviceStates device pc =
     (let this = fst pc; calls = snd pc;
          uuid = generate (AtombergFanDevice.device_id device);
          existingAccessory = find (\<lambda>acc. UUID acc = uuid) (accessories this);
          deviceState = find (\<lambda>dvc. device_id dvc = Some (JStr (AtombergFanDevice.device_id device)))
                          deviceStates
      in case existingAccessory of
           Some existing \<Rightarrow>
             (let updated = existing\<lparr> context_device := Some device,
                                     context_deviceDisplayName := Some (name device) \<rparr>;
                  this1 = this\<lparr> accessories :=
                            update_first (\<lambda>acc. UUID acc = uuid) (\<lambda>acc. updated) (accessories this) \<rparr>;
                  atombergAccessory = new_AtombergFanPlatformAccessory updated deviceState
              in Some (this1\<lparr> accessoryInstances :=
                          (accessoryInstances this1)(AtombergFanDevice.device_id device \<mapsto> atombergAccessory) \<rparr>,
                       calls @ [UpdatePlatformAccessories updated]))
         | None \<Rightarrow>
             (case new_platformAccessory (name device) uuid of
                None \<Rightarrow> None
              | Some created \<Rightarrow>
                  (let acc = created\<lparr> context_device := Some device \<rparr>;
                       atombergAccessory = new_AtombergFanPlatformAccessory acc deviceState
                   in Some (this\<lparr> accessoryInstances :=
                               (accessoryInstances this)(AtombergFanDevice.device_id device \<mapsto> atombergAccessory) \<rparr>,
                            calls @ [RegisterPlatformAccessories (accessory atombergAccessory)]))))"

text \<open>
  The loop itself: the platform and the calls when it ends, and whether it ran to its
  end (\<open>True\<close>) or a round threw (\<open>False\<close>), which leaves the rounds before it in place.
\<close>

fun setup_devices ::
  "(string \<Rightarrow> string) \<Rightarrow> AtombergFanDeviceState list \<Rightarrow> AtombergFanDevice list \<Rightarrow>
   AtombergFanPlatform \<times> homebridge_call list \<Rightarrow> (AtombergFanPlatform \<times> homebridge_call list) \<times> bool" where
  "setup_devices generate deviceStates [] pc = (pc, True)"
| "setup_devices generate deviceStates (device # rest) pc =
     (case setup_device generate deviceStates device pc of
        None \<Rightarrow> (pc, False)
      | Some pc1 \<Rightarrow> setup_devices generate deviceStates rest pc1)"

text \<open>
  The loop over the cached accessories. Reading \<^verbatim>\<open>device_id\<close> of a missing
  \<^verbatim>\<open>context.device\<close> throws, which ends the loop: the \<^verbatim>\<open>catch\<close> clause of
  \<^verbatim>\<open>discoverDevices\<close> logs, and the calls made so far stand.
\<close>

fun unregister_removed :: "AtombergFanDevice list \<Rightarrow> PlatformAccessory list \<Rightarrow> homebridge_call list" where
  "unregister_removed devices [] = []"
| "unregister_removed devices (cachedAccessory # rest) =
     (case context_device cachedAccessory of
        None \<Rightarrow> []
      | Some dev \<Rightarrow>
          (let deviceId = AtombergFanDevice.device_id dev;
               removedPlatformDevice = find (\<lambda>device. AtombergFanDevice.device_id device = deviceId) devices
           in (if removedPlatformDevice = None then [UnregisterPlatformAccessories cachedAccessory] else [])
              @ unregister_removed devices rest))"

text \<open>
  \<^verbatim>\<open>discoverDevices\<close>, given what \<^verbatim>\<open>getAllDevices\<close> and \<^verbatim>\<open>getDeviceState\<close> settle
  with; it returns the platform and the Homebridge calls made. A rejected promise
  throws at its \<^verbatim>\<open>await\<close>. When the device list is \<^verbatim>\<open>undefined\<close>, the states are not
  fetched and \<^verbatim>\<open>devices.find\<close> throws in the second loop; when the state list is
  \<^verbatim>\<open>undefined\<close>, \<^verbatim>\<open>deviceStates.find\<close> throws in the first round of the first loop; when
  a round of the first loop throws, the second loop is not reached.
  Every throw lands in the \<^verbatim>\<open>catch\<close> clause, which logs.
\<close>

definition discoverDevices ::
  "(string \<Rightarrow> string) \<Rightarrow> AtombergFanDevice list option promise \<Rightarrow>
   AtombergFanDeviceState list option promise \<Rightarrow> AtombergFanPlatform \<Rightarrow>
   AtombergFanPlatform \<times> homebridge_call list" where
  "discoverDevices generate devices_result states_result this =
     (case devices_result of
        Rejected reason \<Rightarrow> (this, [])
      | Fulfilled None \<Rightarrow> (this, [])
      | Fulfilled (Some devices) \<Rightarrow>
          (case states_result of
             Rejected reason \<Rightarrow> (this, [])
           | Fulfilled None \<Rightarrow>
               (if devices = [] then (this, unregister_removed devices (accessories this))
                else (this, []))
           | Fulfilled (Some deviceStates) \<Rightarrow>
               (let ((this1, calls), completed) = setup_devices generate deviceStates devices (this, [])
                in if completed then (this1, calls @ unregister_removed devices (accessories this1))
                   else (this1, calls))))"

text \<open>
  \<^verbatim>\<open>handleStateChange\<close>: the map has string keys, so a state whose \<open>device_id\<close> is not a
  string finds no handler.
\<close>

definition handleStateChange :: "AtombergFanPlatform \<Rightarrow> AtombergFanDeviceState \<Rightarrow> AtombergFanPlatform" where
  "handleStateChange this state =
     (case device_id state of
        Some (JStr k) \<Rightarrow>
          (case accessoryInstances this k of
             Some accessoryInstance \<Rightarrow>
               this\<lparr> accessoryInstances :=
                      (accessoryInstances this)(k \<mapsto> refreshDeviceStatus accessoryInstance (Some state)) \<rparr>
           | None \<Rightarrow> this)
      | _ \<Rightarrow> this)"

text \<open>
  The device identifiers behind the calls of one pass, and those of a list of devices
  and of a list of accessories.
\<close>

definition accessory_id :: "PlatformAccessory \<Rightarrow> string list" where
  "accessory_id acc =
     (case context_device acc of None \<Rightarrow> [] | Some dev \<Rightarrow> [AtombergFanDevice.device_id dev])"

definition added :: "homebridge_call list \<Rightarrow> string set" where
  "added calls =
     set (concat (map (\<lambda>c. case c of RegisterPlatformAccessories acc \<Rightarrow> accessory_id acc | _ \<Rightarrow> []) calls))"

definition updated :: "homebridge_call list \<Rightarrow> string set" where
  "updated calls =
     set (concat (map (\<lambda>c. case c of UpdatePlatformAccessories acc \<Rightarrow> accessory_id acc | _ \<Rightarrow> []) calls))"

definition removed :: "homebridge_call list \<Rightarrow> string set" where
  "removed calls =
     set (concat (map (\<lambda>c. case c of UnregisterPlatformAccessories acc \<Rightarrow> accessory_id acc | _ \<Rightarrow> []) calls))"





subsection \<open>After the login at launch\<close>

text \<open>ToBoolean, as \<^verbatim>\<open>!res\<close> applies it; \<open>None\<close> is \<^verbatim>\<open>undefined\<close>.\<close>

fun truthy :: "json option \<Rightarrow> bool" where
  "truthy None = False"
| "truthy (Some JNull) = False"
| "truthy (Some (JBool b)) = b"
| "truthy (Some (JNum (Finite m e))) = (m \<noteq> 0)"
| "truthy (Some (JNum (Infinity negative))) = True"
| "truthy (Some (JNum NaN)) = False"
| "truthy (Some (JStr s)) = (s \<noteq> [])"
| "truthy (Some (JArr elems)) = True"
| "truthy (Some (JObj props)) = True"

datatype launch_effect =
    LogError string
  | LogInfo string
  | LogDebug "string option"
  | CallDiscoverDevices

text \<open>
  The handlers that \<^verbatim>\<open>didFinishLaunching\<close> chains to the promise of \<^verbatim>\<open>login\<close>: what is
  logged, and whether \<^verbatim>\<open>discoverDevices\<close> is called.
\<close>

definition after_login :: "json option promise \<Rightarrow> launch_effect list" where
  "after_login settled =
     (case settled of
        Fulfilled res \<Rightarrow>
          (if \<not> truthy res then [LogError ''Login failed. Skipping device discovery.'']
           else [LogInfo ''Successfully logged in.'', CallDiscoverDevices])
      | Rejected error \<Rightarrow>
          [LogError ''Login failed. Skipping device discovery.'', LogDebug error])"

text \<open>
  The \<^verbatim>\<open>didFinishLaunching\<close> callback: without an API key or a refresh token it logs and
  returns; otherwise it calls \<^verbatim>\<open>login\<close> and chains \<open>after_login\<close>.
\<close>

definition didFinishLaunching ::
  "AtombergFanPlatformConfig \<Rightarrow> token_message http_outcome \<Rightarrow> api_world \<Rightarrow> launch_effect list \<times> api_world" where
  "didFinishLaunching config outcome w =
     (if apiKey config = '''' then
        ([LogError (''apiKey is not configured - aborting plugin start. '' @
                    ''Please set the field `API Key` in your config and restart Homebridge.'')], w)
      else if refreshToken config = '''' then
        ([LogError (''refreshToken is not configured - aborting plugin start. '' @
                    ''Please set the field `Refresh Token` in your config and restart Homebridge.'')], w)
      else
        (let (settled, w1) = login (refreshToken config) outcome w
         in (LogInfo ''Attempting to log into Atomberg platform.'' # after_login settled, w1)))"

section \<open>Example values\<close>

text \<open>
  A device of the account, a UUID generator, the accessory that this platform creates
  for a device and Homebridge restores from its cache, a platform restored with the
  accessories of the devices B and C, and two device states.
\<close>

definition example_fan :: "string \<Rightarrow> AtombergFanDevice" where
  "example_fan i =
     \<lparr> AtombergFanDevice.device_id = i, color = ''White'', series = ''R1'', model = ''Renesa'',
       room = ''Hall'', name = ''Fan '' @ i, metadata = \<lparr> ssid = ''home'' \<rparr> \<rparr>"

definition example_uuid :: "string \<Rightarrow> string" where
  "example_uuid s = ''uuid:'' @ s"

definition cached_accessory :: "AtombergFanDevice \<Rightarrow> PlatformAccessory" where
  "cached_accessory dev =
     \<lparr> UUID = example_uuid (AtombergFanDevice.device_id dev), displayName = name dev,
       context_device = Some dev, context_deviceDisplayName = None,
       fan_service = Some \<lparr> Active = 0, RotationSpeed = 0 \<rparr> \<rparr>"

definition restored_platform :: AtombergFanPlatform where
  "restored_platform =
     \<lparr> accessories = [cached_accessory (example_fan ''B''), cached_accessory (example_fan ''C'')],
       accessoryInstances = Map.empty \<rparr>"

definition running_state :: AtombergFanDeviceState where
  "running_state =
     \<lparr> device_id = Some (JStr ''B''), is_online = True, power = True, led = True,
       sleep_mode = False, last_recorded_speed = 3, timer_hours = 0, timer_time_elapsed_mins = 0,
       ts_epoch_seconds = Some 0, last_recorded_brightness = 0, last_recorded_color = ''Warm'' \<rparr>"

definition offline_state :: AtombergFanDeviceState where
  "offline_state =
     \<lparr> device_id = Some (JStr ''B''), is_online = False, power = False, led = False,
       sleep_mode = False, last_recorded_speed = 0, timer_hours = 0, timer_time_elapsed_mins = 0,
       ts_epoch_seconds = Some 0, last_recorded_brightness = 0, last_recorded_color = ''Warm'' \<rparr>"

definition power_on_command :: AtombergFanCommandData where
  "power_on_command =
     \<lparr> AtombergFanCommandData.device_id = ''B'',
       command = \<lparr> AtombergFanCommandType.power = Some True, speed = Some 3, speedDelta = None,
                   sleep = None, timer = None, AtombergFanCommandType.led = None,
                   brightness = None, brightnessDelta = None, light_mode = None \<rparr> \<rparr>"

section \<open>Properties of the broadcast decoder\<close>

subsection \<open>What the masks extract\<close>

lemma sint_and_low:
  fixes m c :: "32 word"
  assumes "uint m < 2 ^ 31"
  shows "sint (m AND c) = uint m AND uint c"
proof -
  have a: "- (2 ^ 31) \<le> uint m AND uint c"
    by (rule order_trans [of _ 0]) simp_all
  have b: "uint m AND uint c < 2 ^ 31" using assms by (simp add: AND_upper1'')
  have "sint (m AND c) = signed_take_bit 31 (uint (m AND c))"
    by (simp add: sint_uint)
  also have "\<dots> = uint m AND uint c"
    unfolding uint_and by (rule signed_take_bit_int_eq_self [OF a b])
  finally show ?thesis .
qed

lemma js_bitand_low:
  "uint m < 2 ^ 31 \<Longrightarrow> js_bitand m c = uint m AND uint c"
  by (simp add: js_bitand_def sint_and_low)

lemma int_and_exp_pos:
  "((2 ^ n) AND (k :: int) > 0) = bit k n"
proof -
  have "0 \<le> (2 ^ n) AND k" by simp
  moreover have "((2 ^ n) AND k = 0) = (\<not> bit k n)"
    by (simp add: and_exp_eq_0_iff_not_bit and.commute)
  ultimately show ?thesis by linarith
qed

lemma js_bitand_exp:
  assumes "uint (m :: 32 word) = 2 ^ n" and "n < 31"
  shows "(js_bitand m c > 0) = bit c n"
proof -
  have "(2::int) ^ n < 2 ^ 31"
    by (rule power_strict_increasing) (use assms(2) in simp_all)
  then have "uint m < 2 ^ 31" by (simp only: assms(1))
  then have "js_bitand m c = uint m AND uint c" by (rule js_bitand_low)
  then have "js_bitand m c = 2 ^ n AND uint c" by (simp only: assms(1))
  then show ?thesis using assms(2) by (simp add: int_and_exp_pos bit_uint_iff)
qed

lemma power_bit: "(js_bitand 0x10 c > 0) = bit c 4"
  by (rule js_bitand_exp) simp_all

lemma led_bit: "(js_bitand 0x20 c > 0) = bit c 5"
  by (rule js_bitand_exp) simp_all

lemma sleep_bit: "(js_bitand 0x80 c > 0) = bit c 7"
  by (rule js_bitand_exp) simp_all

lemma cool_bit: "(js_bitand 0x08 c > 0) = bit c 3"
  by (rule js_bitand_exp) simp_all

lemma warm_bit: "(js_bitand 0x8000 c > 0) = bit c 15"
  by (rule js_bitand_exp) simp_all

lemma speed_eq: "js_bitand 7 c = uint c mod 8"
proof -
  have "js_bitand 7 c = 7 AND uint c" by (simp add: js_bitand_low)
  also have "\<dots> = uint c AND mask 3" by (simp add: and.commute mask_eq_exp_minus_1)
  also have "\<dots> = uint c mod 8" by (simp flip: take_bit_eq_mask add: take_bit_eq_mod)
  finally show ?thesis .
qed

lemma field_and:
  "(push_bit n (mask k) :: int) AND x = push_bit n (take_bit k (drop_bit n x))"
  by (rule bit_eqI) (auto simp add: bit_simps)

lemma timer_raw: "js_bitand 0x0F0000 c = 65536 * ((uint c div 65536) mod 16)"
proof -
  have "js_bitand 0x0F0000 c = 0x0F0000 AND uint c" by (simp add: js_bitand_low)
  also have "\<dots> = push_bit 16 (mask 4) AND uint c"
    by (simp add: mask_eq_exp_minus_1 push_bit_eq_mult)
  also have "\<dots> = push_bit 16 (take_bit 4 (drop_bit 16 (uint c)))"
    by (rule field_and)
  also have "\<dots> = 65536 * ((uint c div 65536) mod 16)"
    by (simp add: push_bit_eq_mult take_bit_eq_mod drop_bit_eq_div)
  finally show ?thesis .
qed

lemma bright_raw: "js_bitand 0x7F00 c = 256 * ((uint c div 256) mod 128)"
proof -
  have "js_bitand 0x7F00 c = 0x7F00 AND uint c" by (simp add: js_bitand_low)
  also have "\<dots> = push_bit 8 (mask 7) AND uint c"
    by (simp add: mask_eq_exp_minus_1 push_bit_eq_mult)
  also have "\<dots> = push_bit 8 (take_bit 7 (drop_bit 8 (uint c)))"
    by (rule field_and)
  also have "\<dots> = 256 * ((uint c div 256) mod 128)"
    by (simp add: push_bit_eq_mult take_bit_eq_mod drop_bit_eq_div)
  finally show ?thesis .
qed

text \<open>
  The mask \<^verbatim>\<open>0xFF000000\<close> has bit 31 set, so ToInt32 makes it \<open>- 16777216\<close> and the
  result of \<^verbatim>\<open>&\<close> keeps the sign bit of the state code.
\<close>

lemma elapsed_raw: "js_bitand 0xFF000000 c = 16777216 * (sint c div 16777216)"
proof -
  have "sint ((0xFF000000 :: 32 word) AND c) = sint (0xFF000000 :: 32 word) AND sint c"
    by (simp add: signed_and_eq)
  also have "sint (0xFF000000 :: 32 word) = NOT (mask 24)"
    by (simp add: mask_eq_exp_minus_1 not_int_def)
  also have "NOT (mask 24) AND sint c = push_bit 24 (drop_bit 24 (sint c))"
    by (rule bit_eqI) (auto simp add: bit_simps)
  finally show ?thesis
    by (simp add: js_bitand_def push_bit_eq_mult drop_bit_eq_div)
qed

text \<open>The three divisions of the decoder are exact, so \<open>div\<close> is JavaScript's \<^verbatim>\<open>/\<close> there.\<close>

lemma timer_hours_exact: "65536 dvd js_bitand 0x0F0000 c"
  by (simp add: timer_raw)

lemma brightness_exact: "256 dvd js_bitand 0x7F00 c"
  by (simp add: bright_raw)

lemma timer_elapsed_exact: "16777216 dvd js_bitand 0xFF000000 c * 4"
  by (simp add: elapsed_raw)

lemma sint_eq_uint_low:
  fixes c :: "32 word"
  assumes "\<not> bit c 31"
  shows "sint c = uint c"
proof -
  have nb: "\<not> bit (uint c) 31" using assms by (simp add: bit_uint_iff)
  have "uint c = take_bit 32 (uint c)"
    using uint_lt2p [of c] by (simp add: take_bit_int_eq_self)
  also have "\<dots> = take_bit (Suc 31) (uint c)" by simp
  also have "\<dots> = take_bit 31 (uint c)"
    using nb by (simp only: take_bit_Suc_from_most) simp
  finally have "take_bit 31 (uint c) = uint c" by simp
  then show ?thesis using nb
    by (simp add: sint_uint signed_take_bit_eq_if_positive)
qed

lemma timer_time_elapsed_mins_signed:
  "timer_time_elapsed_mins (decodeStateCode dev c) = 4 * (sint c div 16777216)"
  by (simp add: decodeStateCode_def elapsed_raw)

text \<open>
  Where bit 31 of the state code is clear, the elapsed minutes are four times the top
  byte.
\<close>

lemma timer_time_elapsed_mins_bit31_clear:
  assumes "\<not> bit c 31"
  shows "timer_time_elapsed_mins (decodeStateCode dev c) = 4 * (uint c div 16777216)"
  by (simp add: timer_time_elapsed_mins_signed sint_eq_uint_low [OF assms])


subsection \<open>The decoded fields\<close>

lemma truncate_double_int: "truncate_double n 0 = n"
  by (simp add: truncate_double_def)

lemma bit_ToInt32: "k < 32 \<Longrightarrow> bit (ToInt32 (Finite n 0)) k = bit n k"
  by (simp add: truncate_double_int bit_word_of_int_iff)

lemma uint_ToInt32_mod8: "uint (ToInt32 (Finite n 0)) mod 8 = n mod 8"
  by (simp add: truncate_double_int uint_word_of_int mod_mod_cancel)

lemma decode_power: "power (decodeStateCode dev c) = bit c 4"
  by (simp add: decodeStateCode_def power_bit)

lemma decode_led: "led (decodeStateCode dev c) = bit c 5"
  by (simp add: decodeStateCode_def led_bit)

lemma decode_sleep_mode: "sleep_mode (decodeStateCode dev c) = bit c 7"
  by (simp add: decodeStateCode_def sleep_bit)

lemma decode_speed: "last_recorded_speed (decodeStateCode dev c) = uint c mod 8"
  by (simp add: decodeStateCode_def speed_eq)

lemma decode_color:
  "last_recorded_color (decodeStateCode dev c) =
     (if bit c 3 then (if bit c 15 then ''Daylight'' else ''Cool'') else ''Warm'')"
  by (simp add: decodeStateCode_def cool_bit warm_bit)

lemma decode_fields_of_int:
  "power (decodeStateCode dev (ToInt32 (Finite n 0))) = bit n 4
   \<and> led (decodeStateCode dev (ToInt32 (Finite n 0))) = bit n 5
   \<and> sleep_mode (decodeStateCode dev (ToInt32 (Finite n 0))) = bit n 7
   \<and> last_recorded_speed (decodeStateCode dev (ToInt32 (Finite n 0))) = n mod 8
   \<and> last_recorded_color (decodeStateCode dev (ToInt32 (Finite n 0))) =
       (if bit n 3 then (if bit n 15 then ''Daylight'' else ''Cool'') else ''Warm'')"
  unfolding decode_power decode_led decode_sleep_mode decode_speed decode_color
  by (simp only: bit_ToInt32 uint_ToInt32_mod8)

lemma decode_power_speed_3:
  "power (decodeStateCode dev (ToInt32 (Finite (0x10 OR 3) 0))) = True
   \<and> last_recorded_speed (decodeStateCode dev (ToInt32 (Finite (0x10 OR 3) 0))) = 3"
  unfolding decode_power decode_speed
  by (simp add: truncate_double_int)

text \<open>
  C4. For every integer state code \<open>n\<close> (a Number with an integral value, coerced by
  ToInt32 as \<^verbatim>\<open>&\<close> does), the decoder returns the fields the code was built from:
  \<open>power\<close> is bit \<^verbatim>\<open>0x10\<close>, \<open>led\<close> is bit \<^verbatim>\<open>0x20\<close>, \<open>sleep_mode\<close> is bit \<^verbatim>\<open>0x80\<close>,
  the speed is the value of the low three bits, and the colour is \<^verbatim>\<open>Warm\<close> when bit
  \<^verbatim>\<open>0x08\<close> (cool) is clear, \<^verbatim>\<open>Cool\<close> when it is set and bit \<^verbatim>\<open>0x8000\<close> (warm) is clear,
  \<^verbatim>\<open>Daylight\<close> when both are set. The code \<^verbatim>\<open>0x10 | 3\<close> decodes to power on, speed 3.
\<close>

theorem decodeStateCode_bitfield_roundtrip:
  "(power (decodeStateCode dev (ToInt32 (Finite n 0))) = bit n 4
    \<and> led (decodeStateCode dev (ToInt32 (Finite n 0))) = bit n 5
    \<and> sleep_mode (decodeStateCode dev (ToInt32 (Finite n 0))) = bit n 7
    \<and> last_recorded_speed (decodeStateCode dev (ToInt32 (Finite n 0))) = n mod 8
    \<and> last_recorded_color (decodeStateCode dev (ToInt32 (Finite n 0))) =
        (if bit n 3 then (if bit n 15 then ''Daylight'' else ''Cool'') else ''Warm''))
   \<and> (power (decodeStateCode dev (ToInt32 (Finite (0x10 OR 3) 0))) = True
      \<and> last_recorded_speed (decodeStateCode dev (ToInt32 (Finite (0x10 OR 3) 0))) = 3)"
  by (rule conjI [OF decode_fields_of_int decode_power_speed_3])

text \<open>
  C5, as the spec states it (speed in the range 0 to 6), fails: the state code 7 decodes
  to speed 7.
\<close>

theorem decoded_speed_at_most_6_counterexample:
  "\<not> (0 \<le> last_recorded_speed (decodeStateCode (Some (JStr ''fan'')) (ToInt32 (Finite 7 0)))
      \<and> last_recorded_speed (decodeStateCode (Some (JStr ''fan'')) (ToInt32 (Finite 7 0))) \<le> 6)"
  by (simp add: decode_speed truncate_double_int)

text \<open>
  C5, amended. Every state the decoder builds has \<open>last_recorded_speed\<close> in the range
  0 to 7: the raw value of the three-bit field, which the decoder does not clamp.
\<close>

theorem decoded_speed_range:
  "0 \<le> last_recorded_speed (decodeStateCode dev c)
   \<and> last_recorded_speed (decodeStateCode dev c) \<le> 7"
proof -
  have "last_recorded_speed (decodeStateCode dev c) = uint c mod 8"
    by (rule decode_speed)
  then show ?thesis by simp
qed

text \<open>
  C6. The claim asks for four times the top byte of the state code, a value from 0 to
  1020. For the state code \<^verbatim>\<open>0xFF000000\<close> (top byte 255, claimed value 1020) the decoder
  returns \<open>- 4\<close>: \<^verbatim>\<open>0xFF000000 & stateCode\<close> is a signed 32-bit integer, negative as
  soon as bit 31 of the state code is set.
\<close>

theorem timer_time_elapsed_mins_negative:
  "timer_time_elapsed_mins
     (decodeStateCode (Some (JStr ''fan'')) (ToInt32 (Finite 0xFF000000 0))) = - 4"
  by (simp add: timer_time_elapsed_mins_signed truncate_double_int)


text \<open>
  C3. \<^verbatim>\<open>parseMessage\<close> never throws to its caller: for every runtime and every datagram it
  returns \<^verbatim>\<open>null\<close> or a device state built by the decoder. The model is a function of
  the datagram (the logger is only written to), so equal datagrams give equal results.
  A payload without \<^verbatim>\<open>state_string\<close>, or one that is not JSON, gives \<^verbatim>\<open>null\<close>; a
  payload without \<^verbatim>\<open>device_id\<close> gives a state whose \<open>device_id\<close> is \<^verbatim>\<open>undefined\<close>.
\<close>

theorem parseMessage_never_throws:
  "parseMessage rt datagram = Inr None
   \<or> (\<exists>dev stateCode. parseMessage rt datagram = Inr (Some (decodeStateCode dev stateCode)))"
proof (cases "parseMessage_try rt datagram")
  case (Inl err)
  then have "parseMessage rt datagram = Inr None"
    by (simp add: parseMessage_def)
  then show ?thesis ..
next
  case (Inr res)
  then obtain dev stateCode where "res = decodeStateCode dev stateCode"
    by (auto simp add: parseMessage_try_def Let_def split: option.splits sum.splits)
  with Inr have "parseMessage rt datagram = Inr (Some (decodeStateCode dev stateCode))"
    by (simp add: parseMessage_def)
  then show ?thesis by blast
qed

section \<open>Properties of the session manager and the API client\<close>

text \<open>The definitions that a run on concrete events unfolds.\<close>

lemmas session_defs =
  run_def step_def login_begin_def login_settle_def retryLogin_def handleNetworkRequestError_def
  setTimeout_def setInterval_def clearTimeout_def clearInterval_def new_AtombergApi_def
  token_granted_def token_refused_def login_request_def

text \<open>
  What a settled login request does to the token and to the timers: a response whose
  status is not \<^verbatim>\<open>Success\<close> clears the token, a failure of the request leaves it, and
  both schedule exactly one retry with the fixed delay.
\<close>

lemma login_settle_not_success:
  assumes "status response_data \<noteq> ''Success''"
  shows "accessToken (snd (login_settle (HttpResponse response_data) w)) = ''''"
    and "timeouts (snd (login_settle (HttpResponse response_data) w))
           = timeouts w @ [(next_handle w, LOGIN_RETRY_DELAY)]"
    and "intervals (snd (login_settle (HttpResponse response_data) w)) = intervals w"
  using assms by (simp_all add: login_settle_def retryLogin_def setTimeout_def)

lemma login_settle_failure:
  shows "accessToken (snd (login_settle (HttpFailure err) w)) = accessToken w"
    and "timeouts (snd (login_settle (HttpFailure err) w))
           = timeouts w @ [(next_handle w, LOGIN_RETRY_DELAY)]"
    and "intervals (snd (login_settle (HttpFailure err) w)) = intervals w"
  by (simp_all add: login_settle_def retryLogin_def setTimeout_def)

text \<open>The loop over \<^verbatim>\<open>_loginRetryTimeouts\<close> removes the listed handles and nothing else.\<close>

lemma fold_clearTimeout_timeouts:
  "timeouts (fold clearTimeout hs w) = filter (\<lambda>t. fst t \<notin> set hs) (timeouts w)"
  by (induction hs arbitrary: w) (auto simp add: clearTimeout_def intro: filter_cong)

lemma fold_clearTimeout_intervals:
  "intervals (fold clearTimeout hs w) = filter (\<lambda>t. fst t \<notin> set hs) (intervals w)"
  by (induction hs arbitrary: w) (auto simp add: clearTimeout_def intro: filter_cong)

lemma fold_clearTimeout_fields:
  "loginRefreshInterval (fold clearTimeout hs w) = loginRefreshInterval w"
  "loginRetryTimeouts (fold clearTimeout hs w) = loginRetryTimeouts w"
  "accessToken (fold clearTimeout hs w) = accessToken w"
  "logins_in_flight (fold clearTimeout hs w) = logins_in_flight w"
  "next_handle (fold clearTimeout hs w) = next_handle w"
  by (induction hs arbitrary: w) (simp_all add: clearTimeout_def)

lemma login_begin_timeouts:
  "retries_listed w \<Longrightarrow> timeouts (login_begin token w) = []"
  by (auto simp add: login_begin_def Let_def clearInterval_def clearTimeout_def
      fold_clearTimeout_timeouts fold_clearTimeout_fields retries_listed_def filter_empty_conv
      split: option.splits)

lemma login_begin_fields:
  "loginRetryTimeouts (login_begin token w) = loginRetryTimeouts w"
  "loginRefreshInterval (login_begin token w) = loginRefreshInterval w"
  "logins_in_flight (login_begin token w) = Suc (logins_in_flight w)"
  "accessToken (login_begin token w) = accessToken w"
  by (simp_all add: login_begin_def Let_def clearInterval_def clearTimeout_def fold_clearTimeout_fields
      split: option.splits)

lemma login_begin_intervals:
  "intervals (login_begin token w) =
     filter (\<lambda>t. fst t \<notin> set (loginRetryTimeouts w) \<and> Some (fst t) \<noteq> loginRefreshInterval w) (intervals w)"
  by (auto simp add: login_begin_def Let_def clearInterval_def clearTimeout_def fold_clearTimeout_fields
      fold_clearTimeout_intervals split: option.splits intro: filter_cong)

text \<open>
  Every retry is pushed on the list when it is scheduled, so in every state that a run
  reaches a call of \<^verbatim>\<open>login\<close> leaves no retry pending.
\<close>

lemma retries_listed_login_begin:
  "retries_listed w \<Longrightarrow> retries_listed (login_begin token w)"
  by (simp add: retries_listed_def login_begin_timeouts [unfolded retries_listed_def])

lemma retries_listed_step:
  assumes "retries_listed w"
  shows "retries_listed (step token ev w)"
proof (cases ev)
  case CallLogin
  then show ?thesis using assms by (simp add: step_def retries_listed_login_begin)
next
  case (TimeoutFires h)
  have "retries_listed (w\<lparr> timeouts := filter (\<lambda>t. fst t \<noteq> h) (timeouts w) \<rparr>)"
    using assms by (auto simp add: retries_listed_def)
  then show ?thesis using assms TimeoutFires by (simp add: step_def retries_listed_login_begin)
next
  case (IntervalFires h)
  then show ?thesis using assms by (simp add: step_def retries_listed_login_begin)
next
  case (LoginSettles outcome)
  then show ?thesis using assms
    by (auto simp add: step_def retries_listed_def login_settle_def retryLogin_def setTimeout_def
        setInterval_def Let_def split: http_outcome.splits)
next
  case Unauthorized
  then show ?thesis using assms
    by (auto simp add: step_def retries_listed_def handleNetworkRequestError_def setTimeout_def)
qed

lemma retries_listed_run:
  "retries_listed w \<Longrightarrow> retries_listed (run token evs w)"
  unfolding run_def by (induction evs arbitrary: w) (simp_all add: retries_listed_step)

lemma login_cancels_every_retry:
  "timeouts (login_begin token (run token evs new_AtombergApi)) = []"
proof -
  have "retries_listed new_AtombergApi" by (simp add: retries_listed_def new_AtombergApi_def)
  then show ?thesis by (intro login_begin_timeouts retries_listed_run)
qed

text \<open>
  As long as no call of \<^verbatim>\<open>login\<close> starts while another request is under way, at most
  one refresh interval is active.
\<close>

lemma one_chain_login_begin:
  assumes "one_chain w" and "logins_in_flight w = 0"
  shows "one_chain (login_begin token w)"
proof -
  have "intervals (login_begin token w) = []"
    using assms(1) by (auto simp add: login_begin_intervals one_chain_def filter_empty_conv)
  then show ?thesis using assms by (simp add: one_chain_def login_begin_fields)
qed

lemma one_chain_step:
  assumes "one_chain w" and "starts_login ev \<Longrightarrow> logins_in_flight w = 0"
  shows "one_chain (step token ev w)"
proof (cases ev)
  case CallLogin
  then show ?thesis using assms by (simp add: step_def one_chain_login_begin starts_login_def)
next
  case (TimeoutFires h)
  have "one_chain (w\<lparr> timeouts := filter (\<lambda>t. fst t \<noteq> h) (timeouts w) \<rparr>)"
    using assms(1) by (simp add: one_chain_def)
  then show ?thesis using assms TimeoutFires
    by (simp add: step_def one_chain_login_begin starts_login_def)
next
  case (IntervalFires h)
  then show ?thesis using assms by (simp add: step_def one_chain_login_begin starts_login_def)
next
  case (LoginSettles outcome)
  show ?thesis
  proof (cases "0 < logins_in_flight w")
    case True
    then have one: "logins_in_flight w = 1" and none: "intervals w = []"
      using assms(1) by (auto simp add: one_chain_def split: if_splits)
    show ?thesis using one none LoginSettles
      by (auto simp add: step_def one_chain_def login_settle_def retryLogin_def setTimeout_def
          setInterval_def Let_def split: http_outcome.splits)
  next
    case False
    then show ?thesis using assms(1) LoginSettles by (simp add: step_def)
  qed
next
  case Unauthorized
  then show ?thesis using assms(1)
    by (auto simp add: step_def one_chain_def handleNetworkRequestError_def setTimeout_def)
qed

lemma one_chain_run:
  "one_chain w \<Longrightarrow> non_overlapping token evs w \<Longrightarrow> one_chain (run token evs w)"
  unfolding run_def
  by (induction evs arbitrary: w) (simp_all add: one_chain_step split: if_splits)

lemma non_overlapping_logins_one_interval:
  assumes "non_overlapping token evs new_AtombergApi"
  shows "length (intervals (run token evs new_AtombergApi)) \<le> 1"
proof -
  have "one_chain new_AtombergApi" by (simp add: one_chain_def new_AtombergApi_def)
  then have "one_chain (run token evs new_AtombergApi)" using assms by (rule one_chain_run)
  then show ?thesis by (simp add: one_chain_def)
qed

text \<open>
  C1. Two calls of \<^verbatim>\<open>login\<close> whose requests overlap and both succeed leave two refresh
  intervals active, and the object holds the handle of the second only: the next
  \<^verbatim>\<open>login\<close> clears that one and the first stays active. When both requests are refused,
  two retry timeouts are pending. The timers of the object alone lead there too: the
  refresh interval fires, an operation receives a 401 response while that login request
  is under way, and the retry it scheduled fires before the request settles. (Without
  overlap one interval at most is active, and
  every \<^verbatim>\<open>login\<close> cancels every pending retry: lemmas
  \<open>non_overlapping_logins_one_interval\<close> and \<open>login_cancels_every_retry\<close>.)
\<close>

theorem concurrent_logins_leave_two_timers:
  "intervals (run ''refresh-token''
      [CallLogin, CallLogin, LoginSettles (token_granted ''t1''), LoginSettles (token_granted ''t2'')]
      new_AtombergApi)
     = [(0, LOGIN_TOKEN_REFRESH_INTERVAL), (1, LOGIN_TOKEN_REFRESH_INTERVAL)]
   \<and> intervals (run ''refresh-token''
      [CallLogin, CallLogin, LoginSettles (token_granted ''t1''), LoginSettles (token_granted ''t2''),
       CallLogin]
      new_AtombergApi)
     = [(0, LOGIN_TOKEN_REFRESH_INTERVAL)]
   \<and> timeouts (run ''refresh-token''
      [CallLogin, CallLogin, LoginSettles token_refused, LoginSettles token_refused]
      new_AtombergApi)
     = [(0, LOGIN_RETRY_DELAY), (1, LOGIN_RETRY_DELAY)]
   \<and> intervals (run ''refresh-token''
      [CallLogin, LoginSettles (token_granted ''t1''), IntervalFires 0, Unauthorized, TimeoutFires 1,
       LoginSettles (token_granted ''t2''), LoginSettles (token_granted ''t3'')]
      new_AtombergApi)
     = [(2, LOGIN_TOKEN_REFRESH_INTERVAL), (3, LOGIN_TOKEN_REFRESH_INTERVAL)]"
  by (simp add: session_defs)

text \<open>
  C2. After a successful login has stored the token \<^verbatim>\<open>tok\<close>, the refresh interval fires
  and the new request fails without a response, or with the HTTP status 500: the
  \<^verbatim>\<open>catch\<close> handler schedules the one retry and leaves the token \<^verbatim>\<open>tok\<close> in place. (The
  \<^verbatim>\<open>then\<close> handler does clear it when the status is not \<^verbatim>\<open>Success\<close>: lemma
  \<open>login_settle_not_success\<close>.)
\<close>

theorem failed_refresh_keeps_token:
  "accessToken (run ''refresh-token''
      [CallLogin, LoginSettles (token_granted ''tok''), IntervalFires 0,
       LoginSettles (HttpFailure ErrorRequest)]
      new_AtombergApi) = ''tok''
   \<and> accessToken (run ''refresh-token''
      [CallLogin, LoginSettles (token_granted ''tok''), IntervalFires 0,
       LoginSettles (HttpFailure (ErrorResponse 500))]
      new_AtombergApi) = ''tok''
   \<and> timeouts (run ''refresh-token''
      [CallLogin, LoginSettles (token_granted ''tok''), IntervalFires 0,
       LoginSettles (HttpFailure ErrorRequest)]
      new_AtombergApi) = [(1, LOGIN_RETRY_DELAY)]"
  by (simp add: session_defs)

text \<open>
  C9. With an empty access token each of \<^verbatim>\<open>getAllDevices\<close>, \<^verbatim>\<open>getDeviceState\<close> and
  \<^verbatim>\<open>sendCommand\<close> rejects with the message that no auth token is available, whatever the
  network would answer, and leaves the state as it was: no request is issued and no
  timer is set.
\<close>

theorem operations_reject_without_token:
  "accessToken w = '''' \<Longrightarrow>
     getAllDevices devices_outcome w = (Rejected (Some no_auth_token), w)
     \<and> getDeviceState state_outcome w = (Rejected (Some no_auth_token), w)
     \<and> sendCommand data command_outcome w = (Rejected (Some no_auth_token), w)"
  by (simp add: getAllDevices_def getDeviceState_def sendCommand_def)

theorem operations_reject_without_token_witness:
  "accessToken new_AtombergApi = ''''
   \<and> getAllDevices (HttpFailure ErrorRequest) new_AtombergApi
       = (Rejected (Some no_auth_token), new_AtombergApi)
   \<and> getDeviceState (HttpFailure ErrorRequest) new_AtombergApi
       = (Rejected (Some no_auth_token), new_AtombergApi)
   \<and> sendCommand power_on_command (HttpFailure ErrorRequest :: unit http_outcome) new_AtombergApi
       = (Rejected (Some no_auth_token), new_AtombergApi)"
proof -
  have h: "accessToken new_AtombergApi = ''''" by (simp add: new_AtombergApi_def)
  show ?thesis using h operations_reject_without_token [OF h] by simp
qed

lemma login_settle_fulfilled: "fst (login_settle outcome w) = Fulfilled None"
  by (simp add: login_settle_def Let_def split: http_outcome.splits prod.splits)

lemma login_fulfilled: "fst (login token outcome w) = Fulfilled None"
  by (simp add: login_def Let_def login_settle_fulfilled)

lemma didFinishLaunching_no_discovery:
  "CallDiscoverDevices \<notin> set (fst (didFinishLaunching config outcome w))"
proof -
  have "after_login (fst (login (refreshToken config) outcome w))
          = [LogError ''Login failed. Skipping device discovery.'']"
    by (simp add: login_fulfilled after_login_def)
  then show ?thesis
    by (auto simp add: didFinishLaunching_def split: prod.splits)
qed

text \<open>
  C10. Whatever the request settles with, the promise of \<^verbatim>\<open>login\<close> is fulfilled with
  \<^verbatim>\<open>undefined\<close>, also when calls interleave. The platform's handler then takes the branch
  of \<^verbatim>\<open>!res\<close>: it logs that the login failed and does not call \<^verbatim>\<open>discoverDevices\<close>,
  for a granted token as for a failure.
\<close>

theorem login_never_rejects:
  "fst (login_settle outcome w) = Fulfilled None
   \<and> fst (login token outcome w) = Fulfilled None
   \<and> after_login (fst (login token outcome w)) = [LogError ''Login failed. Skipping device discovery.'']
   \<and> CallDiscoverDevices \<notin> set (fst (didFinishLaunching config outcome w))"
proof (intro conjI)
  show "fst (login_settle outcome w) = Fulfilled None"
    by (rule login_settle_fulfilled)
  show fulfilled: "fst (login token outcome w) = Fulfilled None"
    by (rule login_fulfilled)
  have "\<not> truthy None" by simp
  then show "after_login (fst (login token outcome w))
               = [LogError ''Login failed. Skipping device discovery.'']"
    unfolding fulfilled by (simp add: after_login_def)
  show "CallDiscoverDevices \<notin> set (fst (didFinishLaunching config outcome w))"
    by (rule didFinishLaunching_no_discovery)
qed

section \<open>Properties of the accessory handler\<close>

text \<open>
  C8. \<^verbatim>\<open>refreshDeviceStatus\<close> with a state whose \<open>is_online\<close> is false returns the handler as
  it was: the stored \<open>Active\<close> and \<open>RotationSpeed\<close> values are the ones from before.
\<close>

theorem refreshDeviceStatus_offline_keeps_values:
  "\<not> is_online deviceState \<Longrightarrow>
     refreshDeviceStatus this (Some deviceState) = this
     \<and> Active (service (refreshDeviceStatus this (Some deviceState))) = Active (service this)
     \<and> RotationSpeed (service (refreshDeviceStatus this (Some deviceState))) = RotationSpeed (service this)"
  by (simp add: refreshDeviceStatus_def)

theorem refreshDeviceStatus_offline_keeps_values_witness:
  "\<not> is_online offline_state
   \<and> Active (service (refreshDeviceStatus
        (new_AtombergFanPlatformAccessory (cached_accessory (example_fan ''B'')) (Some running_state))
        (Some offline_state))) = 1
   \<and> RotationSpeed (service (refreshDeviceStatus
        (new_AtombergFanPlatformAccessory (cached_accessory (example_fan ''B'')) (Some running_state))
        (Some offline_state))) = 60"
proof -
  have h: "\<not> is_online offline_state" by (simp add: offline_state_def)
  have a: "Active (service (new_AtombergFanPlatformAccessory
             (cached_accessory (example_fan ''B'')) (Some running_state))) = 1"
    by (simp add: new_AtombergFanPlatformAccessory_def refreshDeviceStatus_def cached_accessory_def
        running_state_def ACTIVE_def Let_def)
  have r: "RotationSpeed (service (new_AtombergFanPlatformAccessory
             (cached_accessory (example_fan ''B'')) (Some running_state))) = 60"
    by (simp add: new_AtombergFanPlatformAccessory_def refreshDeviceStatus_def cached_accessory_def
        running_state_def Let_def)
  show ?thesis
    using h a r
      refreshDeviceStatus_offline_keeps_values [OF h,
        of "new_AtombergFanPlatformAccessory (cached_accessory (example_fan ''B'')) (Some running_state)"]
    by simp
qed

section \<open>Properties of the reconciliation pass\<close>




lemma accessory_refreshDeviceStatus [simp]:
  "accessory (refreshDeviceStatus this st) = accessory this"
  by (simp add: refreshDeviceStatus_def Let_def split: option.splits)

lemma context_device_new_handler [simp]:
  "context_device (accessory (new_AtombergFanPlatformAccessory acc st)) = context_device acc"
  by (simp add: new_AtombergFanPlatformAccessory_def Let_def)

lemma added_append [simp]:
  "added (cs @ [RegisterPlatformAccessories acc]) = added cs \<union> set (accessory_id acc)"
  "added (cs @ [UpdatePlatformAccessories acc]) = added cs"
  "added (cs @ [UnregisterPlatformAccessories acc]) = added cs"
  by (simp_all add: added_def)

lemma updated_append [simp]:
  "updated (cs @ [RegisterPlatformAccessories acc]) = updated cs"
  "updated (cs @ [UpdatePlatformAccessories acc]) = updated cs \<union> set (accessory_id acc)"
  "updated (cs @ [UnregisterPlatformAccessories acc]) = updated cs"
  by (simp_all add: updated_def)

lemma removed_append [simp]:
  "removed (cs @ [RegisterPlatformAccessories acc]) = removed cs"
  "removed (cs @ [UpdatePlatformAccessories acc]) = removed cs"
  "removed (cs @ [UnregisterPlatformAccessories acc]) = removed cs \<union> set (accessory_id acc)"
  by (simp_all add: removed_def)

lemma find_UUID_None:
  "(find (\<lambda>acc. UUID acc = k) accs = None) = (k \<notin> UUID ` set accs)"
  by (auto simp add: find_None_iff)


text \<open>A device without a cached accessory and without a name: the constructor throws.\<close>

lemma setup_device_nameless:
  assumes "generate (AtombergFanDevice.device_id device) \<notin> UUID ` set (accessories (fst pc))"
    and "name device = []"
  shows "setup_device generate deviceStates device pc = None"
proof -
  have n: "find (\<lambda>acc. UUID acc = generate (AtombergFanDevice.device_id device)) (accessories (fst pc)) = None"
    using assms(1) by (simp add: find_UUID_None)
  show ?thesis
    by (simp add: setup_device_def Let_def n new_platformAccessory_def assms(2))
qed







lemma calls_Nil [simp]:
  "added [] = {}" "updated [] = {}" "removed [] = {}"
  by (simp_all add: added_def updated_def removed_def)










lemma discoverDevices_devices_rejected:
  "discoverDevices generate (Rejected reason) states_result this = (this, [])"
  by (simp add: discoverDevices_def)




text \<open>The account has the devices A and B, the cache those of B and C.\<close>

lemma discoverDevices_A_B_against_B_C:
  "added (snd (discoverDevices example_uuid (Fulfilled (Some [example_fan ''A'', example_fan ''B'']))
                (Fulfilled (Some [running_state])) restored_platform)) = {''A''}
   \<and> updated (snd (discoverDevices example_uuid (Fulfilled (Some [example_fan ''A'', example_fan ''B'']))
                (Fulfilled (Some [running_state])) restored_platform)) = {''B''}
   \<and> removed (snd (discoverDevices example_uuid (Fulfilled (Some [example_fan ''A'', example_fan ''B'']))
                (Fulfilled (Some [running_state])) restored_platform)) = {''C''}"
  by (simp add: discoverDevices_def setup_device_def new_platformAccessory_def restored_platform_def
      cached_accessory_def example_fan_def example_uuid_def running_state_def Let_def
      new_AtombergFanPlatformAccessory_def refreshDeviceStatus_def added_def updated_def removed_def
      accessory_id_def)







end
